theory Spec2Isabelle
  imports Complex_Main
begin


section \<open>Data model\<close>

text \<open>
  A shallow embedding of the tab bar plugin: the iOS overlay (\<^verbatim>\<open>TabsBarOverlay\<close> with its
  nested \<^verbatim>\<open>ImageUtils\<close>), the Capacitor plugin class \<^verbatim>\<open>TabsBarPlugin\<close>, and the web
  implementation's \<^verbatim>\<open>ImageManager\<close>.  Swift \<^verbatim>\<open>Int\<close> is \<open>int\<close>, \<^verbatim>\<open>CGFloat\<close> and
  \<^verbatim>\<open>Double\<close> are idealised as \<open>rat\<close>, optionals are \<open>option\<close>, a Swift runtime trap is
  the value \<open>Trap\<close>.
\<close>

datatype 'a outcome = Trap | Return 'a

datatype uicolor = ParsedColor string | SystemBlue | SystemGray | LabelColor | WithAlpha uicolor rat

type_synonym cgsize = "rat \<times> rat"

record cgrect =
  rect_x :: rat
  rect_y :: rat
  rect_width :: rat
  rect_height :: rat

text \<open>
  A \<^verbatim>\<open>UIImage\<close> that went through \<^verbatim>\<open>ImageUtils\<close> is kept symbolically: either the image
  decoded from some bytes (with the size the decoder reported), or a graphics context of
  a given size together with the drawing calls issued on it, in order.  Rasterisation is
  UIKit's and is not modelled.
\<close>

datatype bitmap =
    DecodedImage "nat list" rat rat
  | Canvas rat rat "draw_op list"
and draw_op =
    DrawImage bitmap cgrect
  | ClipEllipse cgrect
  | StrokeEllipse cgrect uicolor rat
  | StrokeRoundedRect cgrect rat uicolor rat

text \<open>What a \<^verbatim>\<open>UITabBarItem\<close> shows: a processed bitmap (always rendered as original), an
  SF Symbol, or the empty \<^verbatim>\<open>UIImage()\<close>.\<close>

datatype tab_icon = OriginalImage bitmap | SystemImage string | EmptyImage

text \<open>Foundation and UIKit services the code calls; they are parameters of the model.\<close>

record platform =
  urlScheme :: "string \<Rightarrow> string option option"
  base64Decode :: "string \<Rightarrow> nat list option"
  decodeImage :: "nat list \<Rightarrow> cgsize option"
  systemSymbol :: "string \<Rightarrow> bool"
  parseColor :: "string \<Rightarrow> uicolor option"

record ImageIconRing =
  ring_enabled :: bool
  ring_width :: "rat option"

record ImageIcon =
  icon_shape :: string
  icon_size :: string
  icon_image :: string
  icon_ring :: "ImageIconRing option"

datatype TabsBarBadge = BadgeNumber int | BadgeDot

datatype TabsBarInteractionKind = Tap | LongPress

record TabsBarItem =
  item_id :: string
  item_title :: "string option"
  item_systemIcon :: string
  item_image :: "string option"
  item_imageIcon :: "ImageIcon option"
  item_badge :: "TabsBarBadge option"

text \<open>The text of a badge: the decimal numeral of a count, or the bullet.\<close>

datatype badge_text = CountText int | BulletText

record UITabBarItem =
  bar_title :: string
  bar_tag :: int
  badgeValue :: "badge_text option"
  bar_image :: "tab_icon option"
  selectedImage :: "tab_icon option"

text \<open>
  The state of a \<^verbatim>\<open>TabsBarOverlay\<close>.  \<open>tabBar_selectedItem\<close> is the position, within
  \<open>tabBar_items\<close>, of the item the widget highlights.  The four appearance fields stand
  for the tint colours and the title colours that \<^verbatim>\<open>applyColorConfiguration\<close> writes.
  \<open>interactions\<close> lists the calls of the \<^verbatim>\<open>onInteraction\<close> closure, oldest first;
  \<open>onInteraction\<close> tells whether the closure is set.
\<close>

record overlay =
  items :: "TabsBarItem list"
  idToIndex :: "string \<Rightarrow> int option"
  tabBar_items :: "UITabBarItem list option"
  tabBar_selectedItem :: "int option"
  tabBar_tintColor :: "uicolor option"
  tabBar_unselectedItemTintColor :: "uicolor option"
  title_selectedColor :: "uicolor option"
  title_normalColor :: "uicolor option"
  selectedIconColor :: "uicolor option"
  unselectedIconColor :: "uicolor option"
  titleOpacity :: rat
  suppressNextSelectionEvent :: bool
  lastSelectedIndex :: "int option"
  view_isHidden :: bool
  onInteraction :: bool
  interactions :: "(string \<times> TabsBarInteractionKind) list"

section \<open>Image utilities of the overlay (nested ImageUtils)\<close>

definition lowercased_char :: "char \<Rightarrow> char" where
  "lowercased_char c =
     (let n = (of_char c :: nat) in if 65 \<le> n \<and> n \<le> 90 then char_of (n + 32) else c)"

definition lowercased :: "string \<Rightarrow> string" where
  "lowercased s = map lowercased_char s"

definition hasPrefix :: "string \<Rightarrow> string \<Rightarrow> bool" where
  "hasPrefix s p = (take (length p) s = p)"

text \<open>The pattern \<^verbatim>\<open>^data:image/(png|jpeg|jpg|svg\+xml|webp);base64,\<close>, matched without
  regard to (ASCII) case.\<close>

definition isValidBase64DataUri :: "string \<Rightarrow> bool" where
  "isValidBase64DataUri dataUri =
     list_ex (\<lambda>m. hasPrefix (lowercased dataUri) (''data:image/'' @ m @ '';base64,''))
       [''png'', ''jpeg'', ''jpg'', ''svg+xml'', ''webp'']"

definition isValidHttpUrl :: "platform \<Rightarrow> string \<Rightarrow> bool" where
  "isValidHttpUrl pf urlString =
     (case urlScheme pf urlString of
        None \<Rightarrow> False
      | Some scheme \<Rightarrow> scheme = Some ''http'' \<or> scheme = Some ''https'')"

definition loadImageFromBase64 :: "platform \<Rightarrow> string \<Rightarrow> bitmap option" where
  "loadImageFromBase64 pf dataUri =
     (if CHR '','' \<notin> set dataUri then None
      else
        (case base64Decode pf (tl (dropWhile (\<lambda>c. c \<noteq> CHR '','') dataUri)) of
           None \<Rightarrow> None
         | Some bytes \<Rightarrow>
             (case decodeImage pf bytes of
                None \<Rightarrow> None
              | Some (w, h) \<Rightarrow> Some (DecodedImage bytes w h))))"

fun image_size :: "bitmap \<Rightarrow> cgsize" where
  "image_size (DecodedImage bytes w h) = (w, h)"
| "image_size (Canvas w h ops) = (w, h)"


text \<open>
  The three scaling modes.  Each opens a graphics context of the target size and draws
  the image into the rectangle computed first; what falls outside the context is cut
  off.  The context is taken to yield an image (the \<^verbatim>\<open>?? image\<close> alternative of the
  source is for a context that could not be created).
\<close>

definition resizeImageAspectFill_rect :: "cgsize \<Rightarrow> cgsize \<Rightarrow> cgrect" where
  "resizeImageAspectFill_rect sz targetSize =
     (let widthRatio = fst targetSize / fst sz;
          heightRatio = snd targetSize / snd sz;
          ratio = max widthRatio heightRatio;
          newW = fst sz * ratio;
          newH = snd sz * ratio
      in \<lparr>rect_x = (fst targetSize - newW) / 2, rect_y = (snd targetSize - newH) / 2,
          rect_width = newW, rect_height = newH\<rparr>)"

definition resizeImageAspectFill :: "bitmap \<Rightarrow> cgsize \<Rightarrow> bitmap" where
  "resizeImageAspectFill img targetSize =
     Canvas (fst targetSize) (snd targetSize)
       [DrawImage img (resizeImageAspectFill_rect (image_size img) targetSize)]"

definition resizeImageToFill :: "bitmap \<Rightarrow> cgsize \<Rightarrow> bitmap" where
  "resizeImageToFill img targetSize =
     Canvas (fst targetSize) (snd targetSize)
       [DrawImage img \<lparr>rect_x = 0, rect_y = 0, rect_width = fst targetSize,
                        rect_height = snd targetSize\<rparr>]"

definition fit_padding :: rat where
  "fit_padding = 4"

definition resizeImageAspectFit_rect :: "cgsize \<Rightarrow> cgsize \<Rightarrow> cgrect" where
  "resizeImageAspectFit_rect sz targetSize =
     (let availableW = fst targetSize - fit_padding * 2;
          availableH = snd targetSize - fit_padding * 2;
          widthRatio = availableW / fst sz;
          heightRatio = availableH / snd sz;
          ratio = min widthRatio heightRatio;
          newW = fst sz * ratio;
          newH = snd sz * ratio
      in \<lparr>rect_x = (fst targetSize - newW) / 2, rect_y = (snd targetSize - newH) / 2,
          rect_width = newW, rect_height = newH\<rparr>)"

definition resizeImageAspectFit :: "bitmap \<Rightarrow> cgsize \<Rightarrow> bitmap" where
  "resizeImageAspectFit img targetSize =
     Canvas (fst targetSize) (snd targetSize)
       [DrawImage img (resizeImageAspectFit_rect (image_size img) targetSize)]"

definition makeCircularImage :: "bitmap \<Rightarrow> bitmap" where
  "makeCircularImage img =
     (let rect = \<lparr>rect_x = 0, rect_y = 0, rect_width = fst (image_size img),
                   rect_height = snd (image_size img)\<rparr>
      in Canvas (fst (image_size img)) (snd (image_size img))
           [ClipEllipse rect, DrawImage img rect])"

definition applyImageIconStyling :: "bitmap option \<Rightarrow> string \<Rightarrow> string \<Rightarrow> bitmap option" where
  "applyImageIconStyling loaded shape sz =
     (case loaded of
        None \<Rightarrow> None
      | Some img \<Rightarrow>
          (let targetSize = (20, 20);
               resizedImage =
                 (if lowercased sz = ''cover'' then resizeImageAspectFill img targetSize
                  else if lowercased sz = ''stretch'' then resizeImageToFill img targetSize
                  else if lowercased sz = ''fit'' then resizeImageAspectFit img targetSize
                  else resizeImageAspectFit img targetSize)
           in if lowercased shape = ''circle'' then Some (makeCircularImage resizedImage)
              else if lowercased shape = ''square'' then Some resizedImage
              else Some resizedImage))"

definition addEnhancedRingToImage :: "bitmap \<Rightarrow> rat \<Rightarrow> uicolor \<Rightarrow> bitmap" where
  "addEnhancedRingToImage img ringWidth ringColor =
     (let w = fst (image_size img);
          h = snd (image_size img);
          spacerWidth = ringWidth;
          bottomPadding = 2;
          totalRingSpace = spacerWidth + ringWidth;
          newW = w + totalRingSpace * 2;
          newH = h + totalRingSpace * 2 + bottomPadding;
          imageRect = \<lparr>rect_x = totalRingSpace, rect_y = totalRingSpace,
                       rect_width = w, rect_height = h\<rparr>;
          ringRect = \<lparr>rect_x = ringWidth / 2, rect_y = ringWidth / 2,
                      rect_width = newW - ringWidth,
                      rect_height = newH - ringWidth - bottomPadding\<rparr>
      in Canvas newW newH
           [DrawImage img imageRect,
            if w = h then StrokeEllipse ringRect ringColor ringWidth
            else StrokeRoundedRect ringRect (min w h * (1 / 10)) ringColor ringWidth])"

text \<open>
  \<^verbatim>\<open>processImageIcon\<close> hands its result to a completion handler.  For a remote source the
  handler runs when \<^verbatim>\<open>loadImageFromUrl\<close> completes; \<open>fetched url\<close> is the image that call
  completes with (\<open>None\<close> for \<^verbatim>\<open>nil\<close>).
\<close>

definition processImageIcon :: "platform \<Rightarrow> (string \<Rightarrow> bitmap option) \<Rightarrow> ImageIcon \<Rightarrow> bitmap option" where
  "processImageIcon pf fetched imageIcon =
     (let imageSource = icon_image imageIcon in
      if isValidBase64DataUri imageSource then
        applyImageIconStyling (loadImageFromBase64 pf imageSource)
          (icon_shape imageIcon) (icon_size imageIcon)
      else if isValidHttpUrl pf imageSource then
        applyImageIconStyling (fetched imageSource) (icon_shape imageIcon) (icon_size imageIcon)
      else None)"

section \<open>The overlay (TabsBarOverlay)\<close>

definition createSelectedImageWithRing :: "overlay \<Rightarrow> bitmap \<Rightarrow> ImageIcon \<Rightarrow> bitmap" where
  "createSelectedImageWithRing ov img imageIcon =
     (case icon_ring imageIcon of
        None \<Rightarrow> img
      | Some ring \<Rightarrow>
          if \<not> ring_enabled ring then img
          else addEnhancedRingToImage img
                 (case ring_width ring of None \<Rightarrow> 2 | Some w \<Rightarrow> w)
                 (case selectedIconColor ov of None \<Rightarrow> SystemBlue | Some c \<Rightarrow> c))"

definition createUnselectedImageWithRing :: "overlay \<Rightarrow> bitmap \<Rightarrow> ImageIcon \<Rightarrow> bitmap" where
  "createUnselectedImageWithRing ov img imageIcon =
     (case icon_ring imageIcon of
        None \<Rightarrow> img
      | Some ring \<Rightarrow>
          if \<not> ring_enabled ring then img
          else addEnhancedRingToImage img
                 (case ring_width ring of None \<Rightarrow> 2 | Some w \<Rightarrow> w)
                 (case unselectedIconColor ov of None \<Rightarrow> SystemGray | Some c \<Rightarrow> c))"

text \<open>\<^verbatim>\<open>UIImage(systemName: model.systemIcon) ?? UIImage()\<close>.\<close>

definition systemIconOrEmpty :: "platform \<Rightarrow> TabsBarItem \<Rightarrow> tab_icon" where
  "systemIconOrEmpty pf model =
     (if systemSymbol pf (item_systemIcon model) then SystemImage (item_systemIcon model)
      else EmptyImage)"

text \<open>
  \<^verbatim>\<open>loadImageForItem\<close> in two parts: what it does before it returns, and the completion
  block that runs on the main queue once the image icon has been processed.
  \<open>loadImageForItem\<close> is the tab bar item once the completion has run.
\<close>

definition loadImageForItem_started :: "platform \<Rightarrow> TabsBarItem \<Rightarrow> UITabBarItem \<Rightarrow> UITabBarItem" where
  "loadImageForItem_started pf model tabBarItem =
     (case item_imageIcon model of
        Some imageIcon \<Rightarrow> tabBarItem
      | None \<Rightarrow> tabBarItem\<lparr>bar_image := Some (systemIconOrEmpty pf model)\<rparr>)"

definition loadImageForItem_completion ::
  "platform \<Rightarrow> overlay \<Rightarrow> TabsBarItem \<Rightarrow> ImageIcon \<Rightarrow> bitmap option \<Rightarrow> UITabBarItem \<Rightarrow> UITabBarItem" where
  "loadImageForItem_completion pf ov model imageIcon loaded tabBarItem =
     (case loaded of
        Some img \<Rightarrow>
          tabBarItem\<lparr>bar_image := Some (OriginalImage (createUnselectedImageWithRing ov img imageIcon)),
                      selectedImage := Some (OriginalImage (createSelectedImageWithRing ov img imageIcon))\<rparr>
      | None \<Rightarrow> tabBarItem\<lparr>bar_image := Some (systemIconOrEmpty pf model)\<rparr>)"

definition loadImageForItem ::
  "platform \<Rightarrow> (string \<Rightarrow> bitmap option) \<Rightarrow> overlay \<Rightarrow> TabsBarItem \<Rightarrow> UITabBarItem \<Rightarrow> UITabBarItem" where
  "loadImageForItem pf fetched ov model tabBarItem =
     (case item_imageIcon model of
        Some imageIcon \<Rightarrow>
          loadImageForItem_completion pf ov model imageIcon
            (processImageIcon pf fetched imageIcon) tabBarItem
      | None \<Rightarrow> loadImageForItem_started pf model tabBarItem)"

definition applyBadge :: "TabsBarBadge option \<Rightarrow> UITabBarItem \<Rightarrow> UITabBarItem" where
  "applyBadge badge item =
     (case badge of
        Some (BadgeNumber n) \<Rightarrow> item\<lparr>badgeValue := (if n > 0 then Some (CountText n) else None)\<rparr>
      | Some BadgeDot \<Rightarrow> item\<lparr>badgeValue := Some BulletText\<rparr>
      | None \<Rightarrow> item\<lparr>badgeValue := None\<rparr>)"

definition applyColorConfiguration :: "overlay \<Rightarrow> overlay" where
  "applyColorConfiguration ov =
     ov\<lparr>tabBar_tintColor :=
           (case selectedIconColor ov of Some c \<Rightarrow> Some c | None \<Rightarrow> tabBar_tintColor ov),
        tabBar_unselectedItemTintColor :=
           (case unselectedIconColor ov of Some c \<Rightarrow> Some c
            | None \<Rightarrow> tabBar_unselectedItemTintColor ov),
        title_selectedColor :=
           Some (case selectedIconColor ov of Some c \<Rightarrow> c | None \<Rightarrow> LabelColor),
        title_normalColor :=
           Some (WithAlpha (case unselectedIconColor ov of Some c \<Rightarrow> c | None \<Rightarrow> LabelColor)
                   (max 0 (min (titleOpacity ov) 1)))\<rparr>"


text \<open>
  \<^verbatim>\<open>update\<close>.  \<^verbatim>\<open>Dictionary(uniqueKeysWithValues:)\<close> traps when two items share an id.
  Assigning \<^verbatim>\<open>tabBar.items\<close> installs new item objects, so no item of the bar is
  highlighted until the selection is set below.  The part of
  \<^verbatim>\<open>configureLongPressRecognizers\<close> that attaches recognisers to UIKit's button views is
  not part of the state.
\<close>

definition newBarItem :: "platform \<Rightarrow> nat \<times> TabsBarItem \<Rightarrow> UITabBarItem" where
  "newBarItem pf p =
     loadImageForItem_started pf (snd p)
       (applyBadge (item_badge (snd p))
          \<lparr>bar_title = (case item_title (snd p) of None \<Rightarrow> [] | Some t \<Rightarrow> t),
           bar_tag = int (fst p), badgeValue = None, bar_image = None, selectedImage = None\<rparr>)"

definition barCount :: "overlay \<Rightarrow> int" where
  "barCount ov = (case tabBar_items ov of None \<Rightarrow> 0 | Some tabItems \<Rightarrow> int (length tabItems))"

definition selectInitial :: "string option \<Rightarrow> overlay \<Rightarrow> overlay" where
  "selectInitial initialId ov =
     (case (case initialId of None \<Rightarrow> None | Some i \<Rightarrow> idToIndex ov i) of
        Some idx \<Rightarrow>
          if tabBar_items ov \<noteq> None \<and> idx < barCount ov
          then ov\<lparr>tabBar_selectedItem := Some idx, lastSelectedIndex := Some idx\<rparr>
          else (case tabBar_items ov of
                  Some (firstItem # rest) \<Rightarrow>
                    ov\<lparr>tabBar_selectedItem := Some 0, lastSelectedIndex := Some (bar_tag firstItem)\<rparr>
                | _ \<Rightarrow> ov\<lparr>lastSelectedIndex := None\<rparr>)
      | None \<Rightarrow>
          (case tabBar_items ov of
             Some (firstItem # rest) \<Rightarrow>
               ov\<lparr>tabBar_selectedItem := Some 0, lastSelectedIndex := Some (bar_tag firstItem)\<rparr>
           | _ \<Rightarrow> ov\<lparr>lastSelectedIndex := None\<rparr>))"

definition update ::
  "platform \<Rightarrow> TabsBarItem list \<Rightarrow> string option \<Rightarrow> bool \<Rightarrow> uicolor option \<Rightarrow> uicolor option
     \<Rightarrow> rat \<Rightarrow> overlay \<Rightarrow> overlay outcome" where
  "update pf its initialId visible selColor unselColor opacity ov =
     (if \<not> distinct (map item_id its) then Trap
      else
        (let ov1 = ov\<lparr>items := its, selectedIconColor := selColor,
                       unselectedIconColor := unselColor,
                       titleOpacity := max 0 (min opacity 1),
                       idToIndex := map_of (map (\<lambda>p. (item_id (snd p), int (fst p))) (enumerate 0 its))\<rparr>;
             ov2 = ov1\<lparr>tabBar_items := Some (map (newBarItem pf) (enumerate 0 its)),
                        tabBar_selectedItem := None\<rparr>;
             ov3 = selectInitial initialId (applyColorConfiguration ov2)
         in Return (ov3\<lparr>view_isHidden := \<not> visible\<rparr>)))"

definition select :: "string \<Rightarrow> overlay \<Rightarrow> overlay" where
  "select i ov =
     (case idToIndex ov i of
        None \<Rightarrow> ov
      | Some idx \<Rightarrow>
          if tabBar_items ov \<noteq> None \<and> idx < barCount ov
          then applyColorConfiguration
                 (ov\<lparr>tabBar_selectedItem := Some idx, lastSelectedIndex := Some idx\<rparr>)
          else ov)"

definition restorePreviousSelection :: "overlay \<Rightarrow> overlay" where
  "restorePreviousSelection ov =
     (case lastSelectedIndex ov of
        None \<Rightarrow> ov
      | Some previousIndex \<Rightarrow>
          if tabBar_items ov \<noteq> None \<and> previousIndex \<ge> 0 \<and> previousIndex < barCount ov
          then applyColorConfiguration (ov\<lparr>tabBar_selectedItem := Some previousIndex\<rparr>)
          else ov)"

definition notify :: "string \<times> TabsBarInteractionKind \<Rightarrow> overlay \<Rightarrow> overlay" where
  "notify ev ov = (if onInteraction ov then ov\<lparr>interactions := interactions ov @ [ev]\<rparr> else ov)"

text \<open>
  The delegate call \<^verbatim>\<open>tabBar(_:didSelect:)\<close>, which UIKit sends when the user selects an
  item; by then the widget highlights that item.  The argument is the item's position
  in the bar.  UIKit does not send it for an assignment to \<^verbatim>\<open>selectedItem\<close>.
\<close>

definition tabBar_didSelect :: "nat \<Rightarrow> overlay \<Rightarrow> overlay" where
  "tabBar_didSelect pos ov =
     (case tabBar_items ov of
        None \<Rightarrow> ov
      | Some tabItems \<Rightarrow>
          if pos \<ge> length tabItems then ov
          else
            (let ov0 = ov\<lparr>tabBar_selectedItem := Some (int pos)\<rparr>;
                 idx = bar_tag (tabItems ! pos)
             in if \<not> (idx \<ge> 0 \<and> idx < int (length (items ov0))) then ov0
                else if suppressNextSelectionEvent ov0
                then restorePreviousSelection (ov0\<lparr>suppressNextSelectionEvent := False\<rparr>)
                else notify (item_id (items ov0 ! nat idx), Tap)
                       (applyColorConfiguration (ov0\<lparr>lastSelectedIndex := Some idx\<rparr>))))"

text \<open>
  A long-press recogniser reports its state to \<^verbatim>\<open>handleLongPress\<close>; UIKit moves it to
  \<open>Began\<close> once the press has lasted the \<^verbatim>\<open>minimumPressDuration\<close> that
  \<^verbatim>\<open>configureLongPressRecognizers\<close> sets (0.45 s).  \<open>g_viewButton\<close> is
  the position of the gesture's view among the tab bar's buttons (if it is one of them),
  \<open>g_tabAtLocation\<close> what \<^verbatim>\<open>indexForTab(at:)\<close> finds from the touch location.
\<close>

datatype gesture_state = Possible | Began | Changed | Ended | Cancelled | Failed









text \<open>A freshly created overlay (the stored properties' initial values).\<close>

definition init_overlay :: overlay where
  "init_overlay =
     \<lparr>items = [], idToIndex = Map.empty, tabBar_items = None, tabBar_selectedItem = None,
      tabBar_tintColor = None, tabBar_unselectedItemTintColor = None,
      title_selectedColor = None, title_normalColor = None,
      selectedIconColor = None, unselectedIconColor = None, titleOpacity = 7 / 10,
      suppressNextSelectionEvent = False, lastSelectedIndex = None, view_isHidden = False,
      onInteraction = False, interactions = []\<rparr>"

text \<open>
  What \<^verbatim>\<open>update\<close> establishes and every later operation keeps: the bar holds one item
  per tab, tagged with its position; \<open>idToIndex\<close> is the dictionary built from the tab
  list; and \<open>lastSelectedIndex\<close> names a tab unless there is none.
\<close>

definition names_tab :: "int option \<Rightarrow> nat \<Rightarrow> bool" where
  "names_tab sel n = (case sel of None \<Rightarrow> n = 0 | Some idx \<Rightarrow> 0 \<le> idx \<and> idx < int n)"

definition consistent :: "overlay \<Rightarrow> bool" where
  "consistent ov =
     (map_option (map bar_tag) (tabBar_items ov) = Some (map int [0..<length (items ov)])
      \<and> idToIndex ov = map_of (map (\<lambda>p. (item_id (snd p), int (fst p))) (enumerate 0 (items ov)))
      \<and> names_tab (lastSelectedIndex ov) (length (items ov)))"

section \<open>The plugin (TabsBarPlugin)\<close>

text \<open>
  The options of a plugin call are a JavaScript object; \<^verbatim>\<open>configure\<close> serialises the
  \<open>items\<close> array to JSON and decodes it into \<^verbatim>\<open>[JSItem]\<close>.  A decoder returns \<open>None\<close>
  where \<^verbatim>\<open>JSONDecoder\<close> throws.
\<close>

datatype json =
    JNull
  | JBool bool
  | JNumber rat
  | JString string
  | JArray "json list"
  | JObject "(string \<times> json) list"

fun asString :: "json \<Rightarrow> string option" where
  "asString (JString s) = Some s"
| "asString _ = None"

fun asBool :: "json \<Rightarrow> bool option" where
  "asBool (JBool b) = Some b"
| "asBool _ = None"

fun asDouble :: "json \<Rightarrow> rat option" where
  "asDouble (JNumber r) = Some r"
| "asDouble _ = None"

text \<open>A number decodes as \<^verbatim>\<open>Int\<close> when it is integral and fits 64 bits.\<close>

fun asInt :: "json \<Rightarrow> int option" where
  "asInt (JNumber r) =
     (if r = of_int \<lfloor>r\<rfloor> \<and> - (2 ^ 63) \<le> \<lfloor>r\<rfloor> \<and> \<lfloor>r\<rfloor> < 2 ^ 63 then Some \<lfloor>r\<rfloor> else None)"
| "asInt _ = None"

fun isObject :: "json \<Rightarrow> bool" where
  "isObject (JObject members) = True"
| "isObject _ = False"

text \<open>A stored property of non-optional type (\<^verbatim>\<open>decode\<close>), and one of optional type
  (\<^verbatim>\<open>decodeIfPresent\<close>: a missing key and \<^verbatim>\<open>null\<close> both give \<^verbatim>\<open>nil\<close>).\<close>

definition decodeRequired :: "(json \<Rightarrow> 'a option) \<Rightarrow> (string \<times> json) list \<Rightarrow> string \<Rightarrow> 'a option" where
  "decodeRequired dec members k = (case map_of members k of None \<Rightarrow> None | Some v \<Rightarrow> dec v)"

definition decodeIfPresent ::
  "(json \<Rightarrow> 'a option) \<Rightarrow> (string \<times> json) list \<Rightarrow> string \<Rightarrow> 'a option option" where
  "decodeIfPresent dec members k =
     (case map_of members k of
        None \<Rightarrow> Some None
      | Some JNull \<Rightarrow> Some None
      | Some v \<Rightarrow> map_option Some (dec v))"

record JSImageIconRing =
  jsring_enabled :: bool
  jsring_width :: rat

record JSImageIcon =
  jsicon_shape :: string
  jsicon_size :: string
  jsicon_image :: string
  jsicon_ring :: "JSImageIconRing option"

datatype JSBadge = JSBadgeNumber int | JSBadgeDot | JSBadgeNull

record JSItem =
  js_id :: string
  js_title :: "string option"
  js_systemIcon :: "string option"
  js_image :: "string option"
  js_imageIcon :: "JSImageIcon option"
  js_badge :: "JSBadge option"

definition decodeJSImageIconRing :: "json \<Rightarrow> JSImageIconRing option" where
  "decodeJSImageIconRing v =
     (case v of
        JObject members \<Rightarrow>
          (case (decodeRequired asBool members ''enabled'', decodeRequired asDouble members ''width'') of
             (Some e, Some w) \<Rightarrow> Some \<lparr>jsring_enabled = e, jsring_width = w\<rparr>
           | _ \<Rightarrow> None)
      | _ \<Rightarrow> None)"

definition decodeJSImageIcon :: "json \<Rightarrow> JSImageIcon option" where
  "decodeJSImageIcon v =
     (case v of
        JObject members \<Rightarrow>
          (case (decodeRequired asString members ''shape'', decodeRequired asString members ''size'',
                 decodeRequired asString members ''image'',
                 decodeIfPresent decodeJSImageIconRing members ''ring'') of
             (Some sh, Some sz, Some im, Some rg) \<Rightarrow>
               Some \<lparr>jsicon_shape = sh, jsicon_size = sz, jsicon_image = im, jsicon_ring = rg\<rparr>
           | _ \<Rightarrow> None)
      | _ \<Rightarrow> None)"

text \<open>\<^verbatim>\<open>JSBadge.init(from:)\<close> never throws.\<close>

definition decodeJSBadge :: "json \<Rightarrow> JSBadge" where
  "decodeJSBadge v =
     (if v = JNull then JSBadgeNull
      else if asString v = Some ''dot'' then JSBadgeDot
      else (case asInt v of Some n \<Rightarrow> JSBadgeNumber n | None \<Rightarrow> JSBadgeNull))"

definition decodeJSItem :: "json \<Rightarrow> JSItem option" where
  "decodeJSItem v =
     (case v of
        JObject members \<Rightarrow>
          (case (decodeRequired asString members ''id'',
                 decodeIfPresent asString members ''title'',
                 decodeIfPresent asString members ''systemIcon'',
                 decodeIfPresent asString members ''image'',
                 decodeIfPresent decodeJSImageIcon members ''imageIcon'',
                 decodeIfPresent (\<lambda>b. Some (decodeJSBadge b)) members ''badge'') of
             (Some i, Some t, Some s, Some im, Some ic, Some b) \<Rightarrow>
               Some \<lparr>js_id = i, js_title = t, js_systemIcon = s, js_image = im,
                     js_imageIcon = ic, js_badge = b\<rparr>
           | _ \<Rightarrow> None)
      | _ \<Rightarrow> None)"

fun decodeJSItems :: "json list \<Rightarrow> JSItem list option" where
  "decodeJSItems [] = Some []"
| "decodeJSItems (v # vs) =
     (case decodeJSItem v of
        None \<Rightarrow> None
      | Some item \<Rightarrow> (case decodeJSItems vs of None \<Rightarrow> None | Some rest \<Rightarrow> Some (item # rest)))"

text \<open>The getters of a plugin call.\<close>

definition getArray :: "(string \<times> json) list \<Rightarrow> string \<Rightarrow> json list option" where
  "getArray call k =
     (case map_of call k of
        Some (JArray vs) \<Rightarrow> if list_all isObject vs then Some vs else None
      | _ \<Rightarrow> None)"

definition getString :: "(string \<times> json) list \<Rightarrow> string \<Rightarrow> string option" where
  "getString call k = (case map_of call k of Some v \<Rightarrow> asString v | None \<Rightarrow> None)"

definition getBool :: "(string \<times> json) list \<Rightarrow> string \<Rightarrow> bool option" where
  "getBool call k = (case map_of call k of Some v \<Rightarrow> asBool v | None \<Rightarrow> None)"

definition getDouble :: "(string \<times> json) list \<Rightarrow> string \<Rightarrow> rat option" where
  "getDouble call k = (case map_of call k of Some v \<Rightarrow> asDouble v | None \<Rightarrow> None)"

text \<open>
  The messages \<^verbatim>\<open>handleError\<close> rejects a call with: "Missing 'items'", "Failed to decode
  items", "Items array cannot be empty", "Each item must have a non-empty 'id'" and
  "Failed to initialize overlay".
\<close>

datatype configure_error =
    MissingItems
  | FailedToDecodeItems
  | ItemsArrayEmpty
  | EmptyItemId
  | FailedToInitializeOverlay

definition toBadge :: "JSBadge option \<Rightarrow> TabsBarBadge option" where
  "toBadge b =
     (case b of
        None \<Rightarrow> None
      | Some (JSBadgeNumber n) \<Rightarrow> Some (BadgeNumber n)
      | Some JSBadgeDot \<Rightarrow> Some BadgeDot
      | Some JSBadgeNull \<Rightarrow> None)"

definition toImageIcon :: "JSImageIcon \<Rightarrow> ImageIcon" where
  "toImageIcon jsImageIcon =
     \<lparr>icon_shape = jsicon_shape jsImageIcon, icon_size = jsicon_size jsImageIcon,
      icon_image = jsicon_image jsImageIcon,
      icon_ring = map_option (\<lambda>r. \<lparr>ring_enabled = jsring_enabled r, ring_width = Some (jsring_width r)\<rparr>)
                    (jsicon_ring jsImageIcon)\<rparr>"

text \<open>The closure of \<^verbatim>\<open>jsItems.map\<close>: \<^verbatim>\<open>js.systemIcon!\<close> traps on \<^verbatim>\<open>nil\<close>.\<close>

definition toTabsBarItem :: "JSItem \<Rightarrow> TabsBarItem outcome" where
  "toTabsBarItem js =
     (case js_systemIcon js of
        None \<Rightarrow> Trap
      | Some s \<Rightarrow>
          Return \<lparr>item_id = js_id js, item_title = js_title js, item_systemIcon = s,
                  item_image = js_image js, item_imageIcon = map_option toImageIcon (js_imageIcon js),
                  item_badge = toBadge (js_badge js)\<rparr>)"

fun toTabsBarItems :: "JSItem list \<Rightarrow> TabsBarItem list outcome" where
  "toTabsBarItems [] = Return []"
| "toTabsBarItems (js # rest) =
     (case toTabsBarItem js of
        Trap \<Rightarrow> Trap
      | Return item \<Rightarrow>
          (case toTabsBarItems rest of Trap \<Rightarrow> Trap | Return its \<Rightarrow> Return (item # its)))"

record configure_args =
  arg_items :: "TabsBarItem list"
  arg_initialId :: "string option"
  arg_visible :: bool
  arg_selectedIconColor :: "uicolor option"
  arg_unselectedIconColor :: "uicolor option"
  arg_titleOpacity :: rat

text \<open>
  \<^verbatim>\<open>configure\<close> up to \<^verbatim>\<open>call.resolve()\<close>: it rejects the call, traps, or resolves the call
  after queueing a block for the main queue with the arguments computed here.
\<close>

datatype configure_sync_result = SyncTrap | SyncReject configure_error | SyncResolve configure_args

definition parseColorOption :: "platform \<Rightarrow> string option \<Rightarrow> uicolor option" where
  "parseColorOption pf s = (case s of None \<Rightarrow> None | Some c \<Rightarrow> parseColor pf c)"

definition resolveTitleOpacity :: "rat option \<Rightarrow> rat" where
  "resolveTitleOpacity requested =
     (case requested of
        Some r \<Rightarrow> if r \<ge> 0 \<and> r \<le> 1 then r else 7 / 10
      | None \<Rightarrow> 7 / 10)"

definition configure_sync :: "platform \<Rightarrow> (string \<times> json) list \<Rightarrow> configure_sync_result" where
  "configure_sync pf call =
     (case getArray call ''items'' of
        None \<Rightarrow> SyncReject MissingItems
      | Some itemsArr \<Rightarrow>
          (case decodeJSItems itemsArr of
             None \<Rightarrow> SyncReject FailedToDecodeItems
           | Some jsItems \<Rightarrow>
               if jsItems = [] then SyncReject ItemsArrayEmpty
               else if list_ex (\<lambda>item. js_id item = []) jsItems then SyncReject EmptyItemId
               else
                 (case toTabsBarItems jsItems of
                    Trap \<Rightarrow> SyncTrap
                  | Return its \<Rightarrow>
                      SyncResolve
                        \<lparr>arg_items = its,
                         arg_initialId = getString call ''initialId'',
                         arg_visible = (case getBool call ''visible'' of None \<Rightarrow> True | Some b \<Rightarrow> b),
                         arg_selectedIconColor = parseColorOption pf (getString call ''selectedIconColor''),
                         arg_unselectedIconColor = parseColorOption pf (getString call ''unselectedIconColor''),
                         arg_titleOpacity = resolveTitleOpacity (getDouble call ''titleOpacity'')\<rparr>)))"

text \<open>The plugin object: its overlay, and whether the bridge has a view controller.\<close>

record plugin =
  overlayVC :: "overlay option"
  hostVC :: bool

definition ensureOverlay :: "plugin \<Rightarrow> plugin" where
  "ensureOverlay p =
     (if overlayVC p \<noteq> None then p
      else if \<not> hostVC p then p
      else p\<lparr>overlayVC := Some (init_overlay\<lparr>onInteraction := True\<rparr>)\<rparr>)"

text \<open>The block that \<^verbatim>\<open>configure\<close> queues.  It may reject the (already resolved) call.\<close>

definition configure_block ::
  "platform \<Rightarrow> configure_args \<Rightarrow> plugin \<Rightarrow> (configure_error option \<times> plugin) outcome" where
  "configure_block pf a p =
     (let p1 = ensureOverlay p in
      case overlayVC p1 of
        None \<Rightarrow> Return (Some FailedToInitializeOverlay, p1)
      | Some ov \<Rightarrow>
          (case update pf (arg_items a) (arg_initialId a) (arg_visible a)
                  (arg_selectedIconColor a) (arg_unselectedIconColor a) (arg_titleOpacity a) ov of
             Trap \<Rightarrow> Trap
           | Return ov' \<Rightarrow> Return (None, p1\<lparr>overlayVC := Some ov'\<rparr>)))"

text \<open>
  A whole \<^verbatim>\<open>configure\<close> call, the queued block included: the process crashed before the
  call was answered; the call was rejected and the plugin left as it was; the call was
  resolved and the queued block crashed; or the call was resolved and the block ran.
\<close>

datatype configure_result =
    Crashed
  | Rejected configure_error plugin
  | ResolvedThenCrashed
  | Resolved "configure_error option" plugin

definition configure :: "platform \<Rightarrow> (string \<times> json) list \<Rightarrow> plugin \<Rightarrow> configure_result" where
  "configure pf call p =
     (case configure_sync pf call of
        SyncTrap \<Rightarrow> Crashed
      | SyncReject e \<Rightarrow> Rejected e p
      | SyncResolve a \<Rightarrow>
          (case configure_block pf a p of
             Trap \<Rightarrow> ResolvedThenCrashed
           | Return (late, p') \<Rightarrow> Resolved late p'))"

section \<open>The web implementation's image cache (ImageValidator, ImageManager)\<close>

definition SUPPORTED_FORMATS :: "string list" where
  "SUPPORTED_FORMATS = [''image/png'', ''image/jpeg'', ''image/jpg'', ''image/svg+xml'', ''image/webp'']"

definition MAX_FILE_SIZE :: nat where
  "MAX_FILE_SIZE = 5 * 1024 * 1024"

definition CACHE_DURATION :: int where
  "CACHE_DURATION = 24 * 60 * 60 * 1000"

definition isValidImageFormat :: "string \<Rightarrow> bool" where
  "isValidImageFormat contentType = (lowercased contentType \<in> set SUPPORTED_FORMATS)"

definition validateImageSize :: "nat list \<Rightarrow> bool" where
  "validateImageSize blob = (length blob \<le> MAX_FILE_SIZE)"

text \<open>
  What \<^verbatim>\<open>fetch\<close> ends with: the promise is rejected (a network error), or a response
  arrives, with its \<open>ok\<close> flag, its \<open>content-type\<close> header (if any) and its body.
\<close>

record web_response =
  resp_ok :: bool
  resp_contentType :: "string option"
  resp_blob :: "nat list"

datatype fetch_reply = NetworkError | HttpReply web_response

text \<open>The errors thrown inside \<^verbatim>\<open>fetchAndCacheImage\<close> (each is rethrown as "Failed to load
  image from ..."): the rejection of \<^verbatim>\<open>fetch\<close>, "HTTP status", "Unsupported image format"
  and "Image file too large".\<close>

datatype web_error = FetchRejected | HttpNotOk | UnsupportedImageFormat string | ImageFileTooLarge

record CachedImage =
  ci_url :: string
  ci_blob :: "nat list"
  ci_timestamp :: int
  ci_objectUrl :: nat

text \<open>
  The static state of \<^verbatim>\<open>ImageManager\<close>: the two maps of the source, where a promise is
  named by a number and an object URL by a number.  Added for the statements below:
  \<open>inflight\<close>, the network fetches that have been issued and have not ended, each with
  the promise that \<^verbatim>\<open>fetchAndCacheImage\<close> returned for it; \<open>issued\<close>, the URLs of all
  fetches issued so far; \<open>settled\<close>, the outcome of each promise that has ended.
  \<^verbatim>\<open>URL.revokeObjectURL\<close> is not modelled.
\<close>

record image_manager =
  cache :: "string \<Rightarrow> CachedImage option"
  loadingPromises :: "string \<Rightarrow> nat option"
  inflight :: "(nat \<times> string) list"
  issued :: "string list"
  settled :: "nat \<Rightarrow> (web_error + nat) option"
  nextPromise :: nat
  nextObjectUrl :: nat

definition web_init :: image_manager where
  "web_init =
     \<lparr>cache = Map.empty, loadingPromises = Map.empty, inflight = [], issued = [],
      settled = Map.empty, nextPromise = 0, nextObjectUrl = 0\<rparr>"

definition cleanupCache :: "int \<Rightarrow> image_manager \<Rightarrow> image_manager" where
  "cleanupCache now m =
     m\<lparr>cache := (\<lambda>url. case cache m url of
                          None \<Rightarrow> None
                        | Some cached \<Rightarrow>
                            if now - ci_timestamp cached > CACHE_DURATION then None
                            else Some cached)\<rparr>"

text \<open>What a caller of \<^verbatim>\<open>loadRemoteImage\<close> holds when the call returns: the object URL of
  a cached image, or a promise that is still pending.\<close>

datatype web_handle = CachedUrl nat | Pending nat

text \<open>\<^verbatim>\<open>loadRemoteImage\<close> up to its \<^verbatim>\<open>await\<close>; \<open>now\<close> is what \<^verbatim>\<open>Date.now()\<close> returns.\<close>

definition loadRemoteImage :: "string \<Rightarrow> int \<Rightarrow> image_manager \<Rightarrow> web_handle \<times> image_manager" where
  "loadRemoteImage url now m =
     (case loadingPromises m url of
        Some p \<Rightarrow> (Pending p, m)
      | None \<Rightarrow>
          (case (case cache m url of
                   None \<Rightarrow> None
                 | Some cached \<Rightarrow> if now - ci_timestamp cached < CACHE_DURATION
                                  then Some cached else None) of
             Some cached \<Rightarrow> (CachedUrl (ci_objectUrl cached), m)
           | None \<Rightarrow>
               (let p = nextPromise m in
                (Pending p,
                 m\<lparr>loadingPromises := (loadingPromises m)(url \<mapsto> p),
                    inflight := inflight m @ [(p, url)],
                    issued := issued m @ [url],
                    nextPromise := p + 1\<rparr>))))"

text \<open>\<^verbatim>\<open>fetchAndCacheImage\<close> from the moment \<^verbatim>\<open>fetch\<close> has ended.\<close>

definition fetchAndCacheImage_finish ::
  "string \<Rightarrow> fetch_reply \<Rightarrow> int \<Rightarrow> image_manager \<Rightarrow> (web_error + nat) \<times> image_manager" where
  "fetchAndCacheImage_finish url reply now m =
     (case reply of
        NetworkError \<Rightarrow> (Inl FetchRejected, m)
      | HttpReply response \<Rightarrow>
          if \<not> resp_ok response then (Inl HttpNotOk, m)
          else
            (let contentType = (case resp_contentType response of None \<Rightarrow> [] | Some c \<Rightarrow> c) in
             if \<not> isValidImageFormat contentType then (Inl (UnsupportedImageFormat contentType), m)
             else if \<not> validateImageSize (resp_blob response) then (Inl ImageFileTooLarge, m)
             else
               (let objectUrl = nextObjectUrl m;
                    cached = \<lparr>ci_url = url, ci_blob = resp_blob response, ci_timestamp = now,
                              ci_objectUrl = objectUrl\<rparr>
                in (Inr objectUrl,
                    cleanupCache now
                      (m\<lparr>cache := (cache m)(url \<mapsto> cached), nextObjectUrl := objectUrl + 1\<rparr>)))))"

text \<open>
  The fetch behind promise \<open>p\<close> ends: \<^verbatim>\<open>fetchAndCacheImage\<close> runs to its end, the promise
  is settled, and the call of \<^verbatim>\<open>loadRemoteImage\<close> that created it deletes the entry of
  its URL from \<open>loadingPromises\<close>.
\<close>

definition settle :: "nat \<Rightarrow> fetch_reply \<Rightarrow> int \<Rightarrow> image_manager \<Rightarrow> image_manager" where
  "settle p reply now m =
     (case map_of (inflight m) p of
        None \<Rightarrow> m
      | Some url \<Rightarrow>
          (let r = fetchAndCacheImage_finish url reply now m in
           (snd r)\<lparr>inflight := filter (\<lambda>q. fst q \<noteq> p) (inflight (snd r)),
                    loadingPromises := (loadingPromises (snd r))(url := None),
                    settled := (settled (snd r))(p \<mapsto> fst r)\<rparr>))"







section \<open>The overlay's remote image cache (ImageUtils.loadImageFromUrl)\<close>

definition validTypes :: "string list" where
  "validTypes = [''image/png'', ''image/jpeg'', ''image/jpg'', ''image/svg+xml'', ''image/webp'']"

definition maxFileSize :: nat where
  "maxFileSize = 5 * 1024 * 1024"

text \<open>
  What the completion handler of a data task receives: the data (if any), the status
  code (if the response is an \<^verbatim>\<open>HTTPURLResponse\<close>), whether an error is set, and the
  response's \<^verbatim>\<open>mimeType\<close> (if any).
\<close>

record task_result =
  tr_data :: "nat list option"
  tr_statusCode :: "int option"
  tr_error :: bool
  tr_mimeType :: "string option"

text \<open>Why a task completes with \<^verbatim>\<open>nil\<close>, after the message it prints.\<close>

datatype load_failure =
    FailedToLoad
  | UnsupportedFormat string
  | FileTooLarge nat
  | FailedToCreateImage

text \<open>
  The static state of \<^verbatim>\<open>ImageUtils\<close>: the two dictionaries of the source.  Added for the
  statements below: \<open>tasks\<close>, the data tasks that run, each with its URL; \<open>started\<close>, the
  URLs of all tasks started so far.
\<close>

record image_utils =
  imageCache :: "string \<Rightarrow> bitmap option"
  loadingStates :: "string \<Rightarrow> bool option"
  tasks :: "(nat \<times> string) list"
  started :: "string list"
  nextTask :: nat

definition ios_init :: image_utils where
  "ios_init = \<lparr>imageCache = Map.empty, loadingStates = Map.empty, tasks = [], started = [],
               nextTask = 0\<rparr>"

text \<open>
  How a call of \<^verbatim>\<open>loadImageFromUrl\<close> returns: it has called the completion handler, it
  has scheduled itself again in 0.1 s, or it has started a data task whose completion
  will call the handler.
\<close>

datatype load_return = Completed "bitmap option" | RetryScheduled | TaskStarted nat

definition loadImageFromUrl :: "platform \<Rightarrow> string \<Rightarrow> image_utils \<Rightarrow> load_return \<times> image_utils" where
  "loadImageFromUrl pf urlString s =
     (case imageCache s urlString of
        Some cachedImage \<Rightarrow> (Completed (Some cachedImage), s)
      | None \<Rightarrow>
          if loadingStates s urlString = Some True then (RetryScheduled, s)
          else if urlScheme pf urlString = None then (Completed None, s)
          else
            (let t = nextTask s in
             (TaskStarted t,
              s\<lparr>loadingStates := (loadingStates s)(urlString \<mapsto> True),
                 tasks := tasks s @ [(t, urlString)],
                 started := started s @ [urlString],
                 nextTask := t + 1\<rparr>)))"

text \<open>The checks of the data task's completion handler, in the order of the source.\<close>

definition checkTaskResult :: "platform \<Rightarrow> task_result \<Rightarrow> load_failure + bitmap" where
  "checkTaskResult pf r =
     (case tr_data r of
        None \<Rightarrow> Inl FailedToLoad
      | Some bytes \<Rightarrow>
          if \<not> (tr_statusCode r = Some 200 \<and> \<not> tr_error r) then Inl FailedToLoad
          else if (case tr_mimeType r of
                     Some contentType \<Rightarrow> lowercased contentType \<notin> set validTypes
                   | None \<Rightarrow> False)
          then Inl (UnsupportedFormat (case tr_mimeType r of Some c \<Rightarrow> c | None \<Rightarrow> []))
          else if length bytes > maxFileSize then Inl (FileTooLarge (length bytes))
          else
            (case decodeImage pf bytes of
               None \<Rightarrow> Inl FailedToCreateImage
             | Some sz \<Rightarrow> Inr (DecodedImage bytes (fst sz) (snd sz))))"

text \<open>
  The completion handler of data task \<open>t\<close> runs: the result is checked, a good image is
  cached, and the URL's loading state is set to \<^verbatim>\<open>false\<close> (the \<^verbatim>\<open>defer\<close>).  The first
  component is what the task's completion handler is called with.
\<close>

definition taskCompleted ::
  "platform \<Rightarrow> nat \<Rightarrow> task_result \<Rightarrow> image_utils \<Rightarrow> (load_failure + bitmap) option \<times> image_utils" where
  "taskCompleted pf t r s =
     (case map_of (tasks s) t of
        None \<Rightarrow> (None, s)
      | Some urlString \<Rightarrow>
          (let checked = checkTaskResult pf r;
               s1 = (case checked of
                       Inr img \<Rightarrow> s\<lparr>imageCache := (imageCache s)(urlString \<mapsto> img)\<rparr>
                     | Inl e \<Rightarrow> s)
           in (Some checked,
               s1\<lparr>loadingStates := (loadingStates s1)(urlString \<mapsto> False),
                   tasks := filter (\<lambda>q. fst q \<noteq> t) (tasks s1)\<rparr>)))"

datatype ios_event = Load string | TaskDone nat task_result

fun ios_step :: "platform \<Rightarrow> ios_event \<Rightarrow> image_utils \<Rightarrow> image_utils" where
  "ios_step pf (Load urlString) s = snd (loadImageFromUrl pf urlString s)"
| "ios_step pf (TaskDone t r) s = snd (taskCompleted pf t r s)"

fun ios_run :: "platform \<Rightarrow> ios_event list \<Rightarrow> image_utils \<Rightarrow> image_utils" where
  "ios_run pf [] s = s"
| "ios_run pf (e # es) s = ios_run pf es (ios_step pf e s)"

section \<open>Invariants of the two caches\<close>



section \<open>Scaling as the specification words it\<close>

text \<open>
  The specification's wording of the two scale modes, for comparison with the code:
  \<^emph>\<open>fit\<close> has scale ratio \<open>min (availW / srcW) (availH / srcH)\<close> where
  \<open>avail = target - 2 * padding\<close>; \<^emph>\<open>cover\<close> has scale ratio
  \<open>max (targetW / srcW) (targetH / srcH)\<close>; in both the scaled image is centred on the
  target, and what lies outside the target is cut off.
\<close>

definition spec_fit_ratio :: "rat \<Rightarrow> cgsize \<Rightarrow> cgsize \<Rightarrow> rat" where
  "spec_fit_ratio padding src target =
     min ((fst target - 2 * padding) / fst src) ((snd target - 2 * padding) / snd src)"

definition spec_cover_ratio :: "cgsize \<Rightarrow> cgsize \<Rightarrow> rat" where
  "spec_cover_ratio src target = max (fst target / fst src) (snd target / snd src)"

definition spec_centred :: "rat \<Rightarrow> cgsize \<Rightarrow> cgsize \<Rightarrow> cgrect" where
  "spec_centred ratio src target =
     \<lparr>rect_x = (fst target - ratio * fst src) / 2, rect_y = (snd target - ratio * snd src) / 2,
      rect_width = ratio * fst src, rect_height = ratio * snd src\<rparr>"

text \<open>
  \<^verbatim>\<open>TabsBarPlugin.swift\<close> has a file-private \<^verbatim>\<open>ImageUtils\<close> of its own, which nothing
  calls.  Its \<^verbatim>\<open>resizeImageAspectFit\<close> computes this rectangle (no padding).
\<close>

definition plugin_resizeImageAspectFit_rect :: "cgsize \<Rightarrow> cgsize \<Rightarrow> cgrect" where
  "plugin_resizeImageAspectFit_rect sz targetSize =
     (let widthRatio = fst targetSize / fst sz;
          heightRatio = snd targetSize / snd sz;
          ratio = min widthRatio heightRatio;
          newW = fst sz * ratio;
          newH = snd sz * ratio
      in \<lparr>rect_x = (fst targetSize - newW) / 2, rect_y = (snd targetSize - newH) / 2,
          rect_width = newW, rect_height = newH\<rparr>)"

section \<open>Concrete inputs\<close>

text \<open>A platform on which only the SF Symbols \<open>house\<close>, \<open>magnifyingglass\<close> and \<open>person\<close> exist,
  every URL string parses, and the only bytes that decode are \<open>[137, 80, 78, 71]\<close>, to an
  image of 64 by 48 points.\<close>

definition demo_platform :: platform where
  "demo_platform =
     \<lparr>urlScheme = (\<lambda>s. Some (if hasPrefix s ''https://'' then Some ''https''
                              else if hasPrefix s ''http://'' then Some ''http'' else None)),
      base64Decode = (\<lambda>s. None),
      decodeImage = (\<lambda>b. if b = [137, 80, 78, 71] then Some (64, 48) else None),
      systemSymbol = (\<lambda>n. n \<in> set [''house'', ''magnifyingglass'', ''person'']),
      parseColor = (\<lambda>s. None)\<rparr>"

definition plain_tab :: "string \<Rightarrow> string \<Rightarrow> TabsBarItem" where
  "plain_tab i symbolName =
     \<lparr>item_id = i, item_title = None, item_systemIcon = symbolName, item_image = None,
      item_imageIcon = None, item_badge = None\<rparr>"

definition demo_items :: "TabsBarItem list" where
  "demo_items = [plain_tab ''a'' ''house'', plain_tab ''b'' ''magnifyingglass'', plain_tab ''c'' ''person'']"

text \<open>The overlay after \<^verbatim>\<open>update\<close> with the three tabs above and initial id \<open>a\<close>, the
  interaction closure being set as \<^verbatim>\<open>ensureOverlay\<close> sets it.\<close>

definition demo_overlay :: overlay where
  "demo_overlay =
     (case update demo_platform demo_items (Some ''a'') True None None (7 / 10)
             (init_overlay\<lparr>onInteraction := True\<rparr>) of
        Return ov \<Rightarrow> ov
      | Trap \<Rightarrow> init_overlay)"


text \<open>A plugin whose overlay shows the three tabs above.\<close>

definition demo_plugin :: plugin where
  "demo_plugin = \<lparr>overlayVC = Some demo_overlay, hostVC = True\<rparr>"

text \<open>Three \<^verbatim>\<open>configure\<close> calls: two items with the same id; an item with an empty id; an
  item that has no \<open>systemIcon\<close>.\<close>

definition call_duplicate_ids :: "(string \<times> json) list" where
  "call_duplicate_ids =
     [(''items'', JArray [JObject [(''id'', JString ''a''), (''systemIcon'', JString ''house'')],
                          JObject [(''id'', JString ''a''), (''systemIcon'', JString ''person'')]])]"

definition call_empty_id :: "(string \<times> json) list" where
  "call_empty_id =
     [(''items'', JArray [JObject [(''id'', JString ''a''), (''systemIcon'', JString ''house'')],
                          JObject [(''id'', JString []), (''systemIcon'', JString ''person'')]])]"

definition call_no_systemIcon :: "(string \<times> json) list" where
  "call_no_systemIcon =
     [(''items'', JArray [JObject [(''id'', JString ''home''), (''title'', JString ''Home'')]])]"

text \<open>A tab whose image icon has a source that is neither a data URI nor an http(s) URL,
  whose SF Symbol does not exist, and which names a bundled image.\<close>

definition tab_with_bundled_image :: TabsBarItem where
  "tab_with_bundled_image =
     \<lparr>item_id = ''home'', item_title = None, item_systemIcon = ''no.such.symbol'',
      item_image = Some ''logo'',
      item_imageIcon = Some \<lparr>icon_shape = ''circle'', icon_size = ''cover'',
                              icon_image = ''not a url'', icon_ring = None\<rparr>,
      item_badge = None\<rparr>"

text \<open>A URL, a data task result that carries an error, and two results with status 200
  and bytes that decode: one declares \<open>image/png\<close>, one declares no MIME type.\<close>

definition avatar_url :: string where
  "avatar_url = ''https://x/avatar.png''"


definition png_result :: task_result where
  "png_result = \<lparr>tr_data = Some [137, 80, 78, 71], tr_statusCode = Some 200, tr_error = False,
                  tr_mimeType = Some ''image/png''\<rparr>"

definition untyped_result :: task_result where
  "untyped_result = \<lparr>tr_data = Some [137, 80, 78, 71], tr_statusCode = Some 200, tr_error = False,
                      tr_mimeType = None\<rparr>"

section \<open>Properties of the overlay\<close>

lemma index_lookup_None:
  "map_of (map (\<lambda>p. (item_id (snd p), int (fst p))) (enumerate n xs)) k = None
     \<longleftrightarrow> k \<notin> set (map item_id xs)"
proof -
  have "set (map item_id xs) = set (map item_id (map snd (enumerate n xs)))"
    by simp
  also have "\<dots> = fst ` set (map (\<lambda>p. (item_id (snd p), int (fst p))) (enumerate n xs))"
    unfolding set_map by (simp add: image_image)
  finally show ?thesis
    by (simp only: map_of_eq_None_iff)
qed

lemma index_lookup_Some:
  assumes "map_of (map (\<lambda>p. (item_id (snd p), int (fst p))) (enumerate n xs)) k = Some idx"
  shows "int n \<le> idx \<and> idx < int (n + length xs) \<and> item_id (xs ! (nat idx - n)) = k"
proof -
  from assms have "(k, idx) \<in> set (map (\<lambda>p. (item_id (snd p), int (fst p))) (enumerate n xs))"
    by (rule map_of_SomeD)
  then obtain p where p: "p \<in> set (enumerate n xs)" "k = item_id (snd p)" "idx = int (fst p)"
    by auto
  from p(1) have "n \<le> fst p \<and> fst p < length xs + n \<and> xs ! (fst p - n) = snd p"
    by (simp add: in_set_enumerate_eq)
  with p show ?thesis by simp
qed

lemma applyColorConfiguration_fields [simp]:
  "items (applyColorConfiguration ov) = items ov"
  "idToIndex (applyColorConfiguration ov) = idToIndex ov"
  "tabBar_items (applyColorConfiguration ov) = tabBar_items ov"
  "tabBar_selectedItem (applyColorConfiguration ov) = tabBar_selectedItem ov"
  "lastSelectedIndex (applyColorConfiguration ov) = lastSelectedIndex ov"
  "suppressNextSelectionEvent (applyColorConfiguration ov) = suppressNextSelectionEvent ov"
  "onInteraction (applyColorConfiguration ov) = onInteraction ov"
  "interactions (applyColorConfiguration ov) = interactions ov"
  "selectedIconColor (applyColorConfiguration ov) = selectedIconColor ov"
  "unselectedIconColor (applyColorConfiguration ov) = unselectedIconColor ov"
  "titleOpacity (applyColorConfiguration ov) = titleOpacity ov"
  "view_isHidden (applyColorConfiguration ov) = view_isHidden ov"
  by (simp_all add: applyColorConfiguration_def)

lemma barCount_applyColorConfiguration [simp]:
  "barCount (applyColorConfiguration ov) = barCount ov"
  by (simp add: barCount_def)





lemma applyColorConfiguration_consistent [simp]:
  "consistent (applyColorConfiguration ov) = consistent ov"
  unfolding consistent_def by simp

lemma idToIndex_range:
  "consistent ov \<Longrightarrow> idToIndex ov i = Some idx \<Longrightarrow>
     0 \<le> idx \<and> idx < int (length (items ov)) \<and> item_id (items ov ! nat idx) = i"
  unfolding consistent_def using index_lookup_Some[of 0 "items ov" i idx] by simp

lemma select_unknown:
  "consistent ov \<Longrightarrow> i \<notin> set (map item_id (items ov)) \<Longrightarrow> select i ov = ov"
  unfolding select_def consistent_def
  by (simp add: index_lookup_None[THEN iffD2])

lemma select_silent: "interactions (select i ov) = interactions ov"
  unfolding select_def
  by (simp split: option.splits)

lemma select_consistent: "consistent ov \<Longrightarrow> consistent (select i ov)"
proof -
  assume c: "consistent ov"
  show ?thesis
  proof (cases "idToIndex ov i")
    case None then show ?thesis using c by (simp add: select_def)
  next
    case (Some idx)
    with c have "0 \<le> idx \<and> idx < int (length (items ov))"
      using idToIndex_range by blast
    with c Some show ?thesis
      unfolding select_def
      by (simp add: consistent_def names_tab_def)
  qed
qed

lemma restorePreviousSelection_fields [simp]:
  "items (restorePreviousSelection ov) = items ov"
  "idToIndex (restorePreviousSelection ov) = idToIndex ov"
  "tabBar_items (restorePreviousSelection ov) = tabBar_items ov"
  "lastSelectedIndex (restorePreviousSelection ov) = lastSelectedIndex ov"
  "suppressNextSelectionEvent (restorePreviousSelection ov) = suppressNextSelectionEvent ov"
  "onInteraction (restorePreviousSelection ov) = onInteraction ov"
  "interactions (restorePreviousSelection ov) = interactions ov"
  by (simp_all add: restorePreviousSelection_def split: option.splits)

lemma restorePreviousSelection_consistent [simp]:
  "consistent (restorePreviousSelection ov) = consistent ov"
  unfolding consistent_def by simp


lemma notify_fields [simp]:
  "items (notify ev ov) = items ov"
  "idToIndex (notify ev ov) = idToIndex ov"
  "tabBar_items (notify ev ov) = tabBar_items ov"
  "tabBar_selectedItem (notify ev ov) = tabBar_selectedItem ov"
  "lastSelectedIndex (notify ev ov) = lastSelectedIndex ov"
  "suppressNextSelectionEvent (notify ev ov) = suppressNextSelectionEvent ov"
  "onInteraction (notify ev ov) = onInteraction ov"
  by (simp_all add: notify_def)

lemma notify_consistent [simp]: "consistent (notify ev ov) = consistent ov"
  unfolding consistent_def by simp

lemma suppress_consistent [simp]:
  "consistent (ov\<lparr>suppressNextSelectionEvent := b\<rparr>) = consistent ov"
  unfolding consistent_def by simp

lemma highlight_consistent [simp]:
  "consistent (ov\<lparr>tabBar_selectedItem := h\<rparr>) = consistent ov"
  unfolding consistent_def by simp



lemma selectInitial_fields [simp]:
  "items (selectInitial iid ov) = items ov"
  "idToIndex (selectInitial iid ov) = idToIndex ov"
  "tabBar_items (selectInitial iid ov) = tabBar_items ov"
  "onInteraction (selectInitial iid ov) = onInteraction ov"
  "interactions (selectInitial iid ov) = interactions ov"
  by (simp_all add: selectInitial_def split: option.splits list.splits)

lemma selectInitial_names_tab:
  assumes bars: "map_option (map bar_tag) (tabBar_items ov) = Some (map int [0..<length (items ov)])"
    and idx: "idToIndex ov = map_of (map (\<lambda>p. (item_id (snd p), int (fst p))) (enumerate 0 (items ov)))"
  shows "names_tab (lastSelectedIndex (selectInitial iid ov)) (length (items ov))"
proof -
  from bars obtain tabItems where t: "tabBar_items ov = Some tabItems"
    and m: "map bar_tag tabItems = map int [0..<length (items ov)]"
    by auto
  from m have len: "length tabItems = length (items ov)"
    by (auto dest: arg_cong[where f=length])
  have first: "names_tab (lastSelectedIndex
      (case tabBar_items ov of
         Some (firstItem # rest) \<Rightarrow>
           ov\<lparr>tabBar_selectedItem := Some 0, lastSelectedIndex := Some (bar_tag firstItem)\<rparr>
       | _ \<Rightarrow> ov\<lparr>lastSelectedIndex := None\<rparr>)) (length (items ov))"
  proof (cases tabItems)
    case Nil
    with t len show ?thesis by (simp add: names_tab_def)
  next
    case (Cons firstItem rest)
    with m len have "bar_tag firstItem = 0"
      by (cases "items ov") (simp_all add: upt_rec)
    with t Cons len show ?thesis by (auto simp: names_tab_def)
  qed
  show ?thesis
  proof (cases "case iid of None \<Rightarrow> None | Some i \<Rightarrow> idToIndex ov i")
    case None
    with first show ?thesis by (simp add: selectInitial_def)
  next
    case (Some k)
    then obtain i where "idToIndex ov i = Some k" by (cases iid) auto
    with idx have "0 \<le> k" using index_lookup_Some[of 0 "items ov" i k] by simp
    with Some first t len show ?thesis
      by (simp add: selectInitial_def barCount_def names_tab_def)
  qed
qed

lemma update_consistent:
  assumes "update pf its iid vis sc uc op ov = Return ov'"
  shows "consistent ov' \<and> items ov' = its \<and> onInteraction ov' = onInteraction ov
           \<and> interactions ov' = interactions ov"
proof -
  define ov2 where "ov2 = applyColorConfiguration
     (ov\<lparr>items := its, selectedIconColor := sc, unselectedIconColor := uc,
          titleOpacity := max 0 (min op 1),
          idToIndex := map_of (map (\<lambda>p. (item_id (snd p), int (fst p))) (enumerate 0 its)),
          tabBar_items := Some (map (newBarItem pf) (enumerate 0 its)),
          tabBar_selectedItem := None\<rparr>)"
  from assms have ov': "ov' = (selectInitial iid ov2)\<lparr>view_isHidden := \<not> vis\<rparr>"
    unfolding update_def ov2_def Let_def by (simp split: if_splits)
  have tag: "bar_tag (newBarItem pf p) = int (fst p)" for p
    by (simp add: newBarItem_def loadImageForItem_started_def applyBadge_def
          split: option.splits TabsBarBadge.splits)
  have "map bar_tag (map (newBarItem pf) (enumerate 0 its)) = map (\<lambda>p. int (fst p)) (enumerate 0 its)"
    by (simp add: tag)
  also have "\<dots> = map int (map fst (enumerate 0 its))"
    by (simp only: map_map comp_def)
  also have "\<dots> = map int [0..<length its]"
    by (simp only: map_fst_enumerate add_0)
  finally have bars: "map_option (map bar_tag) (tabBar_items ov2) = Some (map int [0..<length (items ov2)])"
    by (simp add: ov2_def)
  have idx: "idToIndex ov2 = map_of (map (\<lambda>p. (item_id (snd p), int (fst p))) (enumerate 0 (items ov2)))"
    by (simp add: ov2_def)
  from selectInitial_names_tab[OF bars idx, of iid] bars idx
  have "consistent (selectInitial iid ov2)"
    by (simp add: consistent_def)
  then show ?thesis
    unfolding ov' by (simp add: consistent_def ov2_def)
qed

lemma demo_overlay_update:
  "update demo_platform demo_items (Some ''a'') True None None (7 / 10)
     (init_overlay\<lparr>onInteraction := True\<rparr>) = Return demo_overlay"
  by (simp add: demo_overlay_def update_def demo_items_def plain_tab_def)

lemma demo_overlay_consistent: "consistent demo_overlay"
  using update_consistent[OF demo_overlay_update] by simp

lemma demo_overlay_items: "items demo_overlay = demo_items"
  using update_consistent[OF demo_overlay_update] by simp



text \<open>
  \<^bold>\<open>C7.\<close>  \<^verbatim>\<open>select(id)\<close> with an id that names no tab of the current tab list returns the
  overlay unchanged (so the selection, \<open>lastSelectedIndex\<close>, and the widget highlight,
  \<open>tabBar_selectedItem\<close>, stay as they were); and \<^verbatim>\<open>select\<close> never calls the interaction
  closure, whether the id names a tab or not.
\<close>

theorem select_missing_id_is_noop_and_select_is_silent:
  "(consistent ov \<and> i \<notin> set (map item_id (items ov)) \<longrightarrow> select i ov = ov)
   \<and> interactions (select i ov) = interactions ov"
  using select_unknown[of ov i] select_silent[of i ov] by blast

theorem select_missing_id_witness:
  "consistent demo_overlay
   \<and> ''missing-id'' \<notin> set (map item_id (items demo_overlay))
   \<and> select ''missing-id'' demo_overlay = demo_overlay
   \<and> interactions (select ''missing-id'' demo_overlay) = interactions demo_overlay
   \<and> lastSelectedIndex (select ''b'' demo_overlay) = Some 1
   \<and> interactions (select ''b'' demo_overlay) = interactions demo_overlay"
proof -
  have m: "''missing-id'' \<notin> set (map item_id (items demo_overlay))"
    by (simp add: demo_overlay_items demo_items_def plain_tab_def)
  have b: "lastSelectedIndex (select ''b'' demo_overlay) = Some 1"
    by (simp add: demo_overlay_def update_def demo_items_def plain_tab_def Let_def
          selectInitial_def barCount_def init_overlay_def select_def)
  from select_missing_id_is_noop_and_select_is_silent[of demo_overlay "''missing-id''"]
       select_missing_id_is_noop_and_select_is_silent[of demo_overlay "''b''"]
       demo_overlay_consistent m b
  show ?thesis by blast
qed




lemma tabBar_didSelect_items [simp]: "items (tabBar_didSelect pos ov) = items ov"
  by (simp add: tabBar_didSelect_def Let_def split: option.splits)








section \<open>Properties of the plugin's configure\<close>

lemma toTabsBarItems_Trap:
  "(toTabsBarItems jsItems = Trap) = (\<exists>js \<in> set jsItems. js_systemIcon js = None)"
  by (induction jsItems)
     (auto simp: toTabsBarItem_def split: outcome.splits option.splits)

lemma toTabsBarItems_ids:
  "toTabsBarItems jsItems = Return its \<Longrightarrow> map item_id its = map js_id jsItems"
  by (induction jsItems arbitrary: its)
     (auto simp: toTabsBarItem_def split: outcome.splits option.splits)

lemma map_of_without_key:
  "map_of (filter (\<lambda>p. fst p \<noteq> k) members) k' = (if k' = k then None else map_of members k')"
  by (induction members) auto

lemma decodeJSItem_without_systemIcon:
  assumes "decodeJSItem (JObject members) = Some js"
  shows "decodeJSItem (JObject (filter (\<lambda>p. fst p \<noteq> ''systemIcon'') members))
           = Some (js\<lparr>js_systemIcon := None\<rparr>)"
  using assms
  by (auto simp: decodeJSItem_def decodeRequired_def decodeIfPresent_def map_of_without_key
           split: option.splits)

lemma configure_rejects_empty_items:
  "getArray call ''items'' = Some [] \<Longrightarrow> configure pf call p = Rejected ItemsArrayEmpty p"
  by (simp add: configure_def configure_sync_def)

lemma configure_rejects_empty_id:
  assumes "getArray call ''items'' = Some itemsArr" and "decodeJSItems itemsArr = Some jsItems"
    and "\<exists>item \<in> set jsItems. js_id item = []"
  shows "configure pf call p = Rejected EmptyItemId p"
proof -
  from assms(3) have "jsItems \<noteq> []" by auto
  moreover from assms(3) have "list_ex (\<lambda>item. js_id item = []) jsItems"
    by (simp add: list_ex_iff)
  ultimately show ?thesis
    using assms(1,2) by (simp add: configure_def configure_sync_def)
qed

lemma configure_duplicate_ids:
  assumes "getArray call ''items'' = Some itemsArr" and "decodeJSItems itemsArr = Some jsItems"
    and "\<forall>item \<in> set jsItems. js_id item \<noteq> [] \<and> js_systemIcon item \<noteq> None"
    and "\<not> distinct (map js_id jsItems)" and "overlayVC p \<noteq> None \<or> hostVC p"
  shows "configure pf call p = ResolvedThenCrashed"
proof -
  from assms(4) have ne: "jsItems \<noteq> []" by auto
  from assms(3) have noempty: "\<not> list_ex (\<lambda>item. js_id item = []) jsItems"
    by (simp add: list_ex_iff)
  from assms(3) have "toTabsBarItems jsItems \<noteq> Trap"
    by (simp add: toTabsBarItems_Trap)
  then obtain its where its: "toTabsBarItems jsItems = Return its"
    by (cases "toTabsBarItems jsItems") auto
  with assms(4) have dup: "\<not> distinct (map item_id its)"
    by (simp add: toTabsBarItems_ids)
  from assms(5) have "overlayVC (ensureOverlay p) \<noteq> None"
    by (cases "overlayVC p") (auto simp: ensureOverlay_def)
  then obtain ov where ov: "overlayVC (ensureOverlay p) = Some ov"
    by blast
  show ?thesis
    using assms(1,2) ne noempty its dup ov
    by (simp add: configure_def configure_sync_def configure_block_def update_def Let_def)
qed

lemma configure_establishes_consistency:
  assumes r: "configure pf call p = Resolved None p'"
    and l: "\<forall>ov0. overlayVC p = Some ov0 \<longrightarrow> onInteraction ov0"
  shows "\<exists>ov. overlayVC p' = Some ov \<and> consistent ov \<and> onInteraction ov"
proof -
  from r obtain a where b: "configure_block pf a p = Return (None, p')"
    by (auto simp: configure_def split: configure_sync_result.splits outcome.splits)
  from b obtain ov0 where e: "overlayVC (ensureOverlay p) = Some ov0"
    by (auto simp: configure_block_def Let_def split: option.splits)
  from e l have on: "onInteraction ov0"
    by (auto simp: ensureOverlay_def init_overlay_def split: if_splits)
  from b e obtain ov where u: "update pf (arg_items a) (arg_initialId a) (arg_visible a)
      (arg_selectedIconColor a) (arg_unselectedIconColor a) (arg_titleOpacity a) ov0 = Return ov"
    and p': "p' = (ensureOverlay p)\<lparr>overlayVC := Some ov\<rparr>"
    by (auto simp: configure_block_def Let_def split: outcome.splits)
  from update_consistent[OF u] on p' show ?thesis by simp
qed

text \<open>
  \<^bold>\<open>C1\<close> (the code at the failing input).  A \<^verbatim>\<open>configure\<close> call whose two items share
  the id \<open>a\<close> passes the checks of \<^verbatim>\<open>configure\<close>, which look for an empty list and for
  empty ids only; the call is resolved, and the queued \<^verbatim>\<open>update\<close> traps when it builds
  the id dictionary.  The call with an empty id, for comparison, is rejected and leaves
  the plugin as it was.
\<close>

theorem configure_duplicate_ids_resolves_then_crashes:
  "configure demo_platform call_duplicate_ids demo_plugin = ResolvedThenCrashed
   \<and> configure demo_platform call_empty_id demo_plugin = Rejected EmptyItemId demo_plugin"
proof -
  have a: "getArray call_duplicate_ids ''items''
             = Some [JObject [(''id'', JString ''a''), (''systemIcon'', JString ''house'')],
                     JObject [(''id'', JString ''a''), (''systemIcon'', JString ''person'')]]"
    by (simp add: call_duplicate_ids_def getArray_def)
  have d: "decodeJSItems [JObject [(''id'', JString ''a''), (''systemIcon'', JString ''house'')],
                          JObject [(''id'', JString ''a''), (''systemIcon'', JString ''person'')]]
             = Some [\<lparr>js_id = ''a'', js_title = None, js_systemIcon = Some ''house'', js_image = None,
                      js_imageIcon = None, js_badge = None\<rparr>,
                     \<lparr>js_id = ''a'', js_title = None, js_systemIcon = Some ''person'', js_image = None,
                      js_imageIcon = None, js_badge = None\<rparr>]"
    by (simp add: decodeJSItem_def decodeRequired_def decodeIfPresent_def)
  have 1: "configure demo_platform call_duplicate_ids demo_plugin = ResolvedThenCrashed"
    by (rule configure_duplicate_ids[OF a d]) (simp_all add: demo_plugin_def)
  have a': "getArray call_empty_id ''items''
             = Some [JObject [(''id'', JString ''a''), (''systemIcon'', JString ''house'')],
                     JObject [(''id'', JString []), (''systemIcon'', JString ''person'')]]"
    by (simp add: call_empty_id_def getArray_def)
  have d': "decodeJSItems [JObject [(''id'', JString ''a''), (''systemIcon'', JString ''house'')],
                          JObject [(''id'', JString []), (''systemIcon'', JString ''person'')]]
             = Some [\<lparr>js_id = ''a'', js_title = None, js_systemIcon = Some ''house'', js_image = None,
                      js_imageIcon = None, js_badge = None\<rparr>,
                     \<lparr>js_id = [], js_title = None, js_systemIcon = Some ''person'', js_image = None,
                      js_imageIcon = None, js_badge = None\<rparr>]"
    by (simp add: decodeJSItem_def decodeRequired_def decodeIfPresent_def)
  have 2: "configure demo_platform call_empty_id demo_plugin = Rejected EmptyItemId demo_plugin"
    by (rule configure_rejects_empty_id[OF a' d']) simp
  from 1 2 show ?thesis by simp
qed

text \<open>
  \<^bold>\<open>C10.\<close>  Decoding accepts an item without \<open>systemIcon\<close>: taking the field away from an
  item that decodes leaves an item that decodes, with \<open>js_systemIcon = None\<close>.  And a
  \<^verbatim>\<open>configure\<close> call whose items decode and pass the id checks (none has an empty id),
  one of them without \<open>systemIcon\<close>, crashes at the forced unwrap: the call is neither
  rejected nor resolved.
\<close>

theorem configure_without_systemIcon_decodes_then_traps:
  "(decodeJSItem (JObject members) = Some js \<longrightarrow>
      decodeJSItem (JObject (filter (\<lambda>p. fst p \<noteq> ''systemIcon'') members))
        = Some (js\<lparr>js_systemIcon := None\<rparr>))
   \<and> (getArray call ''items'' = Some itemsArr \<and> decodeJSItems itemsArr = Some jsItems
        \<and> (\<forall>item \<in> set jsItems. js_id item \<noteq> [])
        \<and> (\<exists>item \<in> set jsItems. js_systemIcon item = None)
      \<longrightarrow> configure pf call p = Crashed)"
proof -
  have "configure pf call p = Crashed"
    if a: "getArray call ''items'' = Some itemsArr" and d: "decodeJSItems itemsArr = Some jsItems"
      and ids: "\<forall>item \<in> set jsItems. js_id item \<noteq> []"
      and missing: "\<exists>item \<in> set jsItems. js_systemIcon item = None"
  proof -
    from missing have ne: "jsItems \<noteq> []" by auto
    from ids have noempty: "\<not> list_ex (\<lambda>item. js_id item = []) jsItems"
      by (simp add: list_ex_iff)
    from missing have "toTabsBarItems jsItems = Trap"
      by (simp add: toTabsBarItems_Trap)
    with a d ne noempty show ?thesis
      by (simp add: configure_def configure_sync_def)
  qed
  with decodeJSItem_without_systemIcon[of members js] show ?thesis by blast
qed

theorem configure_without_systemIcon_witness:
  "decodeJSItem (JObject [(''id'', JString ''home''), (''title'', JString ''Home''),
                          (''systemIcon'', JString ''house'')])
     = Some \<lparr>js_id = ''home'', js_title = Some ''Home'', js_systemIcon = Some ''house'',
             js_image = None, js_imageIcon = None, js_badge = None\<rparr>
   \<and> decodeJSItem (JObject [(''id'', JString ''home''), (''title'', JString ''Home'')])
     = Some \<lparr>js_id = ''home'', js_title = Some ''Home'', js_systemIcon = None,
             js_image = None, js_imageIcon = None, js_badge = None\<rparr>
   \<and> getArray call_no_systemIcon ''items''
     = Some [JObject [(''id'', JString ''home''), (''title'', JString ''Home'')]]
   \<and> configure demo_platform call_no_systemIcon demo_plugin = Crashed"
proof -
  let ?full = "[(''id'', JString ''home''), (''title'', JString ''Home''),
                (''systemIcon'', JString ''house'')]"
  let ?js = "\<lparr>js_id = ''home'', js_title = Some ''Home'', js_systemIcon = Some ''house'',
              js_image = None, js_imageIcon = None, js_badge = None\<rparr>"
  let ?bare = "\<lparr>js_id = ''home'', js_title = Some ''Home'', js_systemIcon = None,
              js_image = None, js_imageIcon = None, js_badge = None\<rparr>"
  have full: "decodeJSItem (JObject ?full) = Some ?js"
    by (simp add: decodeJSItem_def decodeRequired_def decodeIfPresent_def)
  have a: "getArray call_no_systemIcon ''items''
             = Some [JObject [(''id'', JString ''home''), (''title'', JString ''Home'')]]"
    by (simp add: call_no_systemIcon_def getArray_def)
  have bare: "decodeJSItem (JObject [(''id'', JString ''home''), (''title'', JString ''Home'')])
                = Some ?bare"
    using configure_without_systemIcon_decodes_then_traps
            [of ?full ?js call_no_systemIcon
                "[JObject [(''id'', JString ''home''), (''title'', JString ''Home'')]]"
                "[?bare]" demo_platform demo_plugin] full
    by simp
  then have d: "decodeJSItems [JObject [(''id'', JString ''home''), (''title'', JString ''Home'')]]
                  = Some [?bare]"
    by simp
  have "configure demo_platform call_no_systemIcon demo_plugin = Crashed"
    using configure_without_systemIcon_decodes_then_traps
            [of ?full ?js call_no_systemIcon
                "[JObject [(''id'', JString ''home''), (''title'', JString ''Home'')]]"
                "[?bare]" demo_platform demo_plugin] a d
    by simp
  with full bare a show ?thesis by simp
qed

section \<open>The fallback of a tab's icon\<close>

lemma loadImageForItem_ignores_bundled_image:
  "loadImageForItem pf fetched ov (model\<lparr>item_image := x\<rparr>) tabBarItem
     = loadImageForItem pf fetched ov model tabBarItem"
  by (simp add: loadImageForItem_def loadImageForItem_started_def
        loadImageForItem_completion_def systemIconOrEmpty_def split: option.splits)

text \<open>
  \<^bold>\<open>C2\<close> (the code at the failing input).  The tab's image source is invalid, so
  \<^verbatim>\<open>processImageIcon\<close> completes with \<^verbatim>\<open>nil\<close>; its SF Symbol does not exist; it names the
  bundled image \<open>logo\<close>.  The tab bar item ends with the empty image: the bundled image
  is not tried.
\<close>

theorem fallback_skips_bundled_image:
  "processImageIcon demo_platform (\<lambda>url. None)
      \<lparr>icon_shape = ''circle'', icon_size = ''cover'', icon_image = ''not a url'', icon_ring = None\<rparr>
     = None
   \<and> item_image tab_with_bundled_image = Some ''logo''
   \<and> bar_image (loadImageForItem demo_platform (\<lambda>url. None) demo_overlay tab_with_bundled_image
                  (newBarItem demo_platform (0, tab_with_bundled_image)))
     = Some EmptyImage"
  by (simp add: processImageIcon_def isValidBase64DataUri_def isValidHttpUrl_def hasPrefix_def
        lowercased_def lowercased_char_def demo_platform_def tab_with_bundled_image_def
        loadImageForItem_def loadImageForItem_completion_def loadImageForItem_started_def
        systemIconOrEmpty_def newBarItem_def applyBadge_def)

section \<open>Properties of the web image cache\<close>


lemma cleanupCache_fields [simp]:
  "loadingPromises (cleanupCache now m) = loadingPromises m"
  "inflight (cleanupCache now m) = inflight m"
  "issued (cleanupCache now m) = issued m"
  "settled (cleanupCache now m) = settled m"
  "nextPromise (cleanupCache now m) = nextPromise m"
  "nextObjectUrl (cleanupCache now m) = nextObjectUrl m"
  by (simp_all add: cleanupCache_def)

lemma fetchAndCacheImage_finish_fields [simp]:
  "loadingPromises (snd (fetchAndCacheImage_finish url reply now m)) = loadingPromises m"
  "inflight (snd (fetchAndCacheImage_finish url reply now m)) = inflight m"
  "issued (snd (fetchAndCacheImage_finish url reply now m)) = issued m"
  "settled (snd (fetchAndCacheImage_finish url reply now m)) = settled m"
  "nextPromise (snd (fetchAndCacheImage_finish url reply now m)) = nextPromise m"
  by (simp_all add: fetchAndCacheImage_finish_def Let_def split: fetch_reply.splits)








section \<open>Properties of the overlay's remote image cache\<close>










section \<open>Sharing of fetches, expiry, and the content type check\<close>


lemma loadRemoteImage_hit:
  assumes "loadingPromises m url = None" and "cache m url = Some c"
    and "now - ci_timestamp c < CACHE_DURATION"
  shows "loadRemoteImage url now m = (CachedUrl (ci_objectUrl c), m)"
  using assms by (simp add: loadRemoteImage_def)


lemma settle_replaces_entry:
  assumes "map_of (inflight m) p = Some url" and "resp_ok r"
    and "isValidImageFormat (case resp_contentType r of None \<Rightarrow> [] | Some c \<Rightarrow> c)"
    and "validateImageSize (resp_blob r)"
  shows "cache (settle p (HttpReply r) now m) url
           = Some \<lparr>ci_url = url, ci_blob = resp_blob r, ci_timestamp = now,
                   ci_objectUrl = nextObjectUrl m\<rparr>"
  using assms
  by (simp add: settle_def fetchAndCacheImage_finish_def cleanupCache_def Let_def CACHE_DURATION_def)

lemma web_rejects_other_content_type:
  assumes "\<not> isValidImageFormat (case resp_contentType r of None \<Rightarrow> [] | Some c \<Rightarrow> c)"
  shows "isl (fst (fetchAndCacheImage_finish url (HttpReply r) now m))
         \<and> cache (snd (fetchAndCacheImage_finish url (HttpReply r) now m)) = cache m"
  using assms by (simp add: fetchAndCacheImage_finish_def Let_def)

lemma ios_rejects_declared_other_type:
  assumes "tr_mimeType r = Some contentType" and "lowercased contentType \<notin> set validTypes"
  shows "isl (checkTaskResult pf r)"
  using assms by (simp add: checkTaskResult_def split: option.splits)





text \<open>
  \<^bold>\<open>C5\<close> (the code at the failing input).  The overlay's cache maps a URL to an image
  and to nothing else: \<^verbatim>\<open>loadImageFromUrl\<close> reads no clock and no entry carries a time.
  Once the task for a URL has succeeded, a request for it, however much later it is
  made, completes with the cached image, and no second task is started.
\<close>

theorem overlay_cache_entry_is_served_without_expiry:
  "imageCache (ios_run demo_platform [Load avatar_url, TaskDone 0 png_result] ios_init) avatar_url
     = Some (DecodedImage [137, 80, 78, 71] 64 48)
   \<and> fst (loadImageFromUrl demo_platform avatar_url
             (ios_run demo_platform [Load avatar_url, TaskDone 0 png_result] ios_init))
     = Completed (Some (DecodedImage [137, 80, 78, 71] 64 48))
   \<and> started (ios_run demo_platform [Load avatar_url, TaskDone 0 png_result, Load avatar_url] ios_init)
     = [avatar_url]"
  by (simp add: ios_init_def loadImageFromUrl_def taskCompleted_def checkTaskResult_def
        demo_platform_def avatar_url_def png_result_def hasPrefix_def Let_def
        lowercased_def lowercased_char_def validTypes_def maxFileSize_def)

text \<open>
  \<^bold>\<open>C6\<close> (the code at the failing input).  A data task ends with status 200, bytes that
  decode, and a response without MIME type.  The overlay's check of the content type is
  skipped, the image is accepted and cached.  The web implementation rejects the same
  response as an unsupported format.
\<close>

theorem overlay_accepts_response_without_mime_type:
  "checkTaskResult demo_platform untyped_result = Inr (DecodedImage [137, 80, 78, 71] 64 48)
   \<and> imageCache (ios_run demo_platform [Load avatar_url, TaskDone 0 untyped_result] ios_init) avatar_url
     = Some (DecodedImage [137, 80, 78, 71] 64 48)
   \<and> fst (fetchAndCacheImage_finish avatar_url
             (HttpReply \<lparr>resp_ok = True, resp_contentType = None, resp_blob = [137, 80, 78, 71]\<rparr>)
             0 web_init)
     = Inl (UnsupportedImageFormat [])"
  by (simp add: ios_init_def loadImageFromUrl_def taskCompleted_def checkTaskResult_def
        demo_platform_def avatar_url_def untyped_result_def hasPrefix_def Let_def
        maxFileSize_def fetchAndCacheImage_finish_def isValidImageFormat_def
        SUPPORTED_FORMATS_def lowercased_def)

section \<open>Scaling\<close>

lemma fit_rect_is_spec:
  "resizeImageAspectFit_rect sz target = spec_centred (spec_fit_ratio fit_padding sz target) sz target"
  by (simp add: resizeImageAspectFit_rect_def spec_centred_def spec_fit_ratio_def Let_def
        mult.commute)

lemma cover_rect_is_spec:
  "resizeImageAspectFill_rect sz target = spec_centred (spec_cover_ratio sz target) sz target"
  by (simp add: resizeImageAspectFill_rect_def spec_centred_def spec_cover_ratio_def Let_def
        mult.commute)

lemma plugin_fit_rect_is_spec:
  "plugin_resizeImageAspectFit_rect sz target = spec_centred (spec_fit_ratio 0 sz target) sz target"
  by (simp add: plugin_resizeImageAspectFit_rect_def spec_centred_def spec_fit_ratio_def Let_def
        mult.commute)

lemma fit_within_available:
  fixes sw sh aw ah :: rat
  assumes "0 < sw" and "0 < sh"
  shows "min (aw / sw) (ah / sh) * sw \<le> aw \<and> min (aw / sw) (ah / sh) * sh \<le> ah
         \<and> (min (aw / sw) (ah / sh) * sw = aw \<or> min (aw / sw) (ah / sh) * sh = ah)"
proof (cases "aw / sw \<le> ah / sh")
  case True
  then have m: "min (aw / sw) (ah / sh) = aw / sw" by simp
  from True assms have "aw / sw * sh \<le> ah" by (simp add: field_simps)
  with assms(1) show ?thesis unfolding m by simp
next
  case False
  then have m: "min (aw / sw) (ah / sh) = ah / sh" by simp
  from False assms have "ah / sh * sw \<le> aw" by (simp add: field_simps)
  with assms(2) show ?thesis unfolding m by simp
qed

lemma cover_fills_target:
  fixes sw sh tw th :: rat
  assumes "0 < sw" and "0 < sh"
  shows "tw \<le> max (tw / sw) (th / sh) * sw \<and> th \<le> max (tw / sw) (th / sh) * sh
         \<and> (max (tw / sw) (th / sh) * sw = tw \<or> max (tw / sw) (th / sh) * sh = th)"
proof (cases "tw / sw \<le> th / sh")
  case True
  then have m: "max (tw / sw) (th / sh) = th / sh" by simp
  from True assms have "tw \<le> th / sh * sw" by (simp add: field_simps)
  with assms(2) show ?thesis unfolding m by simp
next
  case False
  then have m: "max (tw / sw) (th / sh) = tw / sw" by simp
  from False assms have "th \<le> tw / sw * sh" by (simp add: field_simps)
  with assms(1) show ?thesis unfolding m by simp
qed

text \<open>
  \<^bold>\<open>C9.\<close>  The overlay's \<^emph>\<open>fit\<close> draws the image, on a canvas of the target size, into the
  rectangle the specification describes: scale ratio
  \<open>min (availW / srcW) (availH / srcH)\<close> with \<open>avail = target - 2 * padding\<close>, padding
  being the constant 4, centred on the target; its \<^emph>\<open>cover\<close> does so with scale ratio
  \<open>max (targetW / srcW) (targetH / srcH)\<close>, and the canvas cuts the overhang off.  The
  size modes \<open>fit\<close> and \<open>cover\<close> of an image icon select these two functions, with a
  target of 20 by 20.  For a source of positive width and height the fitted image lies
  within the available box and touches it in one direction, and the covering image
  covers the target, matches it in one direction, and overhangs equally on opposite
  sides.  (The unused copy in \<^verbatim>\<open>TabsBarPlugin.swift\<close> fits with padding 0.)
\<close>

theorem fit_and_cover_scale_as_specified:
  "resizeImageAspectFit img target
     = Canvas (fst target) (snd target)
         [DrawImage img (spec_centred (spec_fit_ratio fit_padding (image_size img) target)
                           (image_size img) target)]
   \<and> resizeImageAspectFill img target
     = Canvas (fst target) (snd target)
         [DrawImage img (spec_centred (spec_cover_ratio (image_size img) target)
                           (image_size img) target)]
   \<and> fit_padding = 4
   \<and> applyImageIconStyling (Some img) ''square'' ''fit'' = Some (resizeImageAspectFit img (20, 20))
   \<and> applyImageIconStyling (Some img) ''square'' ''cover'' = Some (resizeImageAspectFill img (20, 20))
   \<and> plugin_resizeImageAspectFit_rect sz target = spec_centred (spec_fit_ratio 0 sz target) sz target
   \<and> (0 < fst sz \<and> 0 < snd sz \<longrightarrow>
        rect_width (resizeImageAspectFit_rect sz target) \<le> fst target - 2 * fit_padding
        \<and> rect_height (resizeImageAspectFit_rect sz target) \<le> snd target - 2 * fit_padding
        \<and> (rect_width (resizeImageAspectFit_rect sz target) = fst target - 2 * fit_padding
            \<or> rect_height (resizeImageAspectFit_rect sz target) = snd target - 2 * fit_padding)
        \<and> rect_x (resizeImageAspectFit_rect sz target)
              + rect_width (resizeImageAspectFit_rect sz target) / 2 = fst target / 2
        \<and> rect_y (resizeImageAspectFit_rect sz target)
              + rect_height (resizeImageAspectFit_rect sz target) / 2 = snd target / 2
        \<and> fst target \<le> rect_width (resizeImageAspectFill_rect sz target)
        \<and> snd target \<le> rect_height (resizeImageAspectFill_rect sz target)
        \<and> (rect_width (resizeImageAspectFill_rect sz target) = fst target
            \<or> rect_height (resizeImageAspectFill_rect sz target) = snd target)
        \<and> rect_x (resizeImageAspectFill_rect sz target) \<le> 0
        \<and> rect_y (resizeImageAspectFill_rect sz target) \<le> 0
        \<and> rect_x (resizeImageAspectFill_rect sz target)
              + rect_width (resizeImageAspectFill_rect sz target) / 2 = fst target / 2
        \<and> rect_y (resizeImageAspectFill_rect sz target)
              + rect_height (resizeImageAspectFill_rect sz target) / 2 = snd target / 2)"
proof -
  have a: "resizeImageAspectFit img target
     = Canvas (fst target) (snd target)
         [DrawImage img (spec_centred (spec_fit_ratio fit_padding (image_size img) target)
                           (image_size img) target)]"
    by (simp add: resizeImageAspectFit_def fit_rect_is_spec)
  have b: "resizeImageAspectFill img target
     = Canvas (fst target) (snd target)
         [DrawImage img (spec_centred (spec_cover_ratio (image_size img) target)
                           (image_size img) target)]"
    by (simp add: resizeImageAspectFill_def cover_rect_is_spec)
  have c: "applyImageIconStyling (Some img) ''square'' ''fit'' = Some (resizeImageAspectFit img (20, 20))"
    by (simp add: applyImageIconStyling_def lowercased_def lowercased_char_def)
  have d: "applyImageIconStyling (Some img) ''square'' ''cover'' = Some (resizeImageAspectFill img (20, 20))"
    by (simp add: applyImageIconStyling_def lowercased_def lowercased_char_def)
  have e: "rect_width (resizeImageAspectFit_rect sz target) \<le> fst target - 2 * fit_padding
        \<and> rect_height (resizeImageAspectFit_rect sz target) \<le> snd target - 2 * fit_padding
        \<and> (rect_width (resizeImageAspectFit_rect sz target) = fst target - 2 * fit_padding
            \<or> rect_height (resizeImageAspectFit_rect sz target) = snd target - 2 * fit_padding)
        \<and> rect_x (resizeImageAspectFit_rect sz target)
              + rect_width (resizeImageAspectFit_rect sz target) / 2 = fst target / 2
        \<and> rect_y (resizeImageAspectFit_rect sz target)
              + rect_height (resizeImageAspectFit_rect sz target) / 2 = snd target / 2"
    if pos: "0 < fst sz" "0 < snd sz"
    using fit_within_available[OF pos, of "fst target - 2 * fit_padding" "snd target - 2 * fit_padding"]
    by (simp add: fit_rect_is_spec spec_centred_def spec_fit_ratio_def diff_divide_distrib)
  have f: "fst target \<le> rect_width (resizeImageAspectFill_rect sz target)
        \<and> snd target \<le> rect_height (resizeImageAspectFill_rect sz target)
        \<and> (rect_width (resizeImageAspectFill_rect sz target) = fst target
            \<or> rect_height (resizeImageAspectFill_rect sz target) = snd target)
        \<and> rect_x (resizeImageAspectFill_rect sz target) \<le> 0
        \<and> rect_y (resizeImageAspectFill_rect sz target) \<le> 0
        \<and> rect_x (resizeImageAspectFill_rect sz target)
              + rect_width (resizeImageAspectFill_rect sz target) / 2 = fst target / 2
        \<and> rect_y (resizeImageAspectFill_rect sz target)
              + rect_height (resizeImageAspectFill_rect sz target) / 2 = snd target / 2"
    if pos: "0 < fst sz" "0 < snd sz"
    using cover_fills_target[OF pos, of "fst target" "snd target"]
    by (simp add: cover_rect_is_spec spec_centred_def spec_cover_ratio_def diff_divide_distrib)
  from a b c d e f plugin_fit_rect_is_spec[of sz target] show ?thesis
    by (simp add: fit_padding_def)
qed

theorem fit_and_cover_witness:
  "(0::rat) < fst (64, 48) \<and> (0::rat) < snd (64, 48)
   \<and> resizeImageAspectFit (DecodedImage [137, 80, 78, 71] 64 48) (20, 20)
     = Canvas 20 20 [DrawImage (DecodedImage [137, 80, 78, 71] 64 48)
                       \<lparr>rect_x = 4, rect_y = 11 / 2, rect_width = 12, rect_height = 9\<rparr>]
   \<and> resizeImageAspectFill (DecodedImage [137, 80, 78, 71] 64 48) (20, 20)
     = Canvas 20 20 [DrawImage (DecodedImage [137, 80, 78, 71] 64 48)
                       \<lparr>rect_x = - (10 / 3), rect_y = 0, rect_width = 80 / 3, rect_height = 20\<rparr>]
   \<and> rect_width (resizeImageAspectFit_rect (64, 48) (20, 20)) \<le> 12
   \<and> 20 \<le> rect_width (resizeImageAspectFill_rect (64, 48) (20, 20))"
proof -
  note t = fit_and_cover_scale_as_specified
             [of "DecodedImage [137, 80, 78, 71] 64 48" "(20, 20)" "(64, 48)"]
  have r1: "spec_centred (spec_fit_ratio fit_padding (64, 48) (20, 20)) (64, 48) (20, 20)
              = \<lparr>rect_x = 4, rect_y = 11 / 2, rect_width = 12, rect_height = 9\<rparr>"
    by (simp add: spec_centred_def spec_fit_ratio_def fit_padding_def)
  have r2: "spec_centred (spec_cover_ratio (64, 48) (20, 20)) (64, 48) (20, 20)
              = \<lparr>rect_x = - (10 / 3), rect_y = 0, rect_width = 80 / 3, rect_height = 20\<rparr>"
    by (simp add: spec_centred_def spec_cover_ratio_def)
  from t r1 r2 show ?thesis by (simp add: fit_padding_def)
qed

end
